theory Spec2Isabelle
  imports Main
begin

section \<open>The packaging descriptor ci/fireci/setup.py\<close>

text \<open>
  The descriptor is a script of three statements: it changes the working directory of
  the process to the directory of the script, binds the variable \<open>requires\<close> to the
  empty list, and calls \<open>setup\<close> with five keyword arguments, one of which is computed
  by \<open>find_packages(exclude=['tests'])\<close> over the new working directory.

  The model below has the file system as a map from physical paths to directories and
  symbolic links, the process as a record of its working directory and of the script's
  variable, and the call of \<open>setup\<close> as the list of its keyword arguments.
\<close>

subsection \<open>Directory trees\<close>

text \<open>
  An entry of a directory is a regular file (its name) or a directory (its name and its
  own entries). The order of a listing is the order in which the operating system
  returns the entries.
\<close>

datatype entry = File string | Dir string "entry list"

text \<open>The directories of a listing, as \<open>os.walk\<close> hands them over in \<open>dirs\<close>.\<close>

fun subdirs :: "entry list \<Rightarrow> (string \<times> entry list) list" where
  "subdirs [] = []"
| "subdirs (File n # es) = subdirs es"
| "subdirs (Dir n cs # es) = (n, cs) # subdirs es"

subsection \<open>Shell patterns\<close>

text \<open>
  Modelled from the spec: \<open>fnmatchcase\<close> of the Python standard library, which the
  package finder uses to compare a dotted package name with an inclusion or exclusion
  pattern, is not part of the source. \<open>*\<close> stands for any run of characters (the dot
  included), \<open>?\<close> for any one character, every other character for itself, and the
  whole name has to match. Bracket expressions are left out: no pattern of the
  descriptor or of the finder's own list contains a bracket.
\<close>

fun fnmatchcase :: "string \<Rightarrow> string \<Rightarrow> bool" where
  "fnmatchcase [] [] = True"
| "fnmatchcase (c # cs) [] = False"
| "fnmatchcase [] (p # ps) = (p = CHR ''*'' \<and> fnmatchcase [] ps)"
| "fnmatchcase (c # cs) (p # ps) =
     (if p = CHR ''*'' then fnmatchcase (c # cs) ps \<or> fnmatchcase cs (p # ps)
      else (p = CHR ''?'' \<or> p = c) \<and> fnmatchcase cs ps)"

text \<open>
  Modelled from the spec: the finder's filter (\<open>_Filter.__call__\<close>), true when the name
  matches at least one of the patterns.
\<close>

definition matches_any :: "string list \<Rightarrow> string \<Rightarrow> bool" where
  "matches_any pats item = list_ex (\<lambda>pat. fnmatchcase item pat) pats"

subsection \<open>Package discovery\<close>

text \<open>
  Modelled from the spec: \<open>find_packages\<close> is imported from the packaging library and is
  not part of the source. Section 4.1 of the specification describes it as a walk of
  the tree under the descriptor's directory that returns every directory qualifying as
  an importable package, minus any directory matching an exclusion pattern; section 6
  says that all importable sub-packages are included except one explicitly named
  \<open>tests\<close>. The definitions follow the library's \<open>PackageFinder\<close>:
  \<^item> a directory looks like a package when it holds a regular file \<open>__init__.py\<close>;
  \<^item> a directory whose name has a dot, or that does not look like a package, is skipped
    together with everything below it;
  \<^item> the package name of a directory is its path from the root of the walk with the
    separators replaced by dots, and the patterns are compared with this whole name;
  \<^item> a package that passes the inclusion filter and not the exclusion filter is
    returned; the walk goes on below a package even when the package is excluded,
    unless the exclusion list holds the package's name followed by \<open>*\<close> or by \<open>.*\<close>;
  \<^item> the finder always adds \<open>ez_setup\<close> and \<open>*__pycache__\<close> to the exclusion list.
\<close>

definition looks_like_package :: "entry list \<Rightarrow> bool" where
  "looks_like_package cs = (File ''__init__.py'' \<in> set cs)"

definition package_name :: "string \<Rightarrow> string \<Rightarrow> string" where
  "package_name root dir = (if root = [] then dir else root @ ''.'' @ dir)"

definition is_candidate :: "string \<times> entry list \<Rightarrow> bool" where
  "is_candidate d = (CHR ''.'' \<notin> set (fst d) \<and> looks_like_package (snd d))"

definition is_pruned :: "string list \<Rightarrow> string \<Rightarrow> bool" where
  "is_pruned exclude package =
     (package @ ''*'' \<in> set exclude \<or> package @ ''.*'' \<in> set exclude)"

text \<open>The packages returned for the directories of one listing, in the listing's order.\<close>

definition level_packages ::
  "string list \<Rightarrow> string list \<Rightarrow> string \<Rightarrow> entry list \<Rightarrow> string list" where
  "level_packages exclude include root es =
     filter (\<lambda>package. matches_any include package \<and> \<not> matches_any exclude package)
       (map (\<lambda>d. package_name root (fst d)) (filter is_candidate (subdirs es)))"

text \<open>The directories the walk descends into: what the loop body appends to \<open>dirs\<close>.\<close>

definition kept_dirs :: "string list \<Rightarrow> string \<Rightarrow> entry list \<Rightarrow> (string \<times> entry list) list" where
  "kept_dirs exclude root es =
     filter (\<lambda>d. is_candidate d \<and> \<not> is_pruned exclude (package_name root (fst d)))
       (subdirs es)"

text \<open>The measure of the walk: what is left of the tree below a list of directories.\<close>

fun weight :: "(string \<times> entry list) list \<Rightarrow> nat" where
  "weight [] = 0"
| "weight (d # ds) = Suc (Suc (2 * size_list size (snd d))) + weight ds"

lemma weight_filter: "weight (filter P ds) \<le> weight ds"
  by (induction ds) auto

lemma weight_subdirs: "weight (subdirs es) \<le> 2 * size_list size es"
  by (induction es rule: subdirs.induct) auto

lemma weight_kept_dirs: "weight (kept_dirs exclude root es) \<le> 2 * size_list size es"
  unfolding kept_dirs_def using weight_filter weight_subdirs le_trans by blast

text \<open>
  The walk itself (\<open>_find_iter\<close> over \<open>os.walk\<close>, top down): the packages of the
  current listing first, then the walk of each kept directory in turn (\<open>walk_kept\<close>,
  the loop of \<open>os.walk\<close> over what is left in \<open>dirs\<close>).
\<close>

function find_iter ::
    "string list \<Rightarrow> string list \<Rightarrow> string \<Rightarrow> entry list \<Rightarrow> string list"
  and walk_kept ::
    "string list \<Rightarrow> string list \<Rightarrow> string \<Rightarrow> (string \<times> entry list) list \<Rightarrow> string list"
where
  "find_iter exclude include root es =
     level_packages exclude include root es @
     walk_kept exclude include root (kept_dirs exclude root es)"
| "walk_kept exclude include root [] = []"
| "walk_kept exclude include root (d # ds) =
     find_iter exclude include (package_name root (fst d)) (snd d) @
     walk_kept exclude include root ds"
  by pat_completeness auto
termination
proof (relation "measure (\<lambda>x. case x of
      Inl (exclude, include, root, es) \<Rightarrow> Suc (2 * size_list size es)
    | Inr (exclude, include, root, ds) \<Rightarrow> weight ds)")
qed (simp_all add: weight_kept_dirs less_Suc_eq_le)

definition ALWAYS_EXCLUDE :: "string list" where
  "ALWAYS_EXCLUDE = [''ez_setup'', ''*__pycache__'']"

text \<open>
  \<open>find_packages(where, exclude, include)\<close> over the listing of \<open>where\<close>. The defaults of
  the library are \<open>exclude = ()\<close> and \<open>include = ('*',)\<close>.
\<close>

definition find_packages :: "entry list \<Rightarrow> string list \<Rightarrow> string list \<Rightarrow> string list" where
  "find_packages where_listing exclude include =
     find_iter (ALWAYS_EXCLUDE @ exclude) include [] where_listing"

text \<open>The call of the descriptor: \<open>find_packages(exclude=['tests'])\<close>.\<close>

definition discover_packages :: "entry list \<Rightarrow> string list" where
  "discover_packages where_listing = find_packages where_listing [''tests''] [''*'']"

subsection \<open>Strings and paths\<close>

text \<open>
  Modelled from the spec: the string methods and the functions of \<open>os.path\<close> (POSIX
  flavour) that the first statement of the descriptor calls belong to the Python
  standard library and are not part of the source. Each definition follows the library
  function of the same name; \<open>os.getcwd()\<close> is the \<open>cwd\<close> argument.
\<close>

definition startswith :: "string \<Rightarrow> string \<Rightarrow> bool" where
  "startswith s p = (take (length p) s = p)"

definition endswith :: "string \<Rightarrow> string \<Rightarrow> bool" where
  "endswith s p = (length p \<le> length s \<and> drop (length s - length p) s = p)"

text \<open>\<open>s.rfind(c)\<close>: the index of the last occurrence of \<open>c\<close>, or \<open>-1\<close>.\<close>

definition rfind :: "string \<Rightarrow> char \<Rightarrow> int" where
  "rfind s c = int (length (dropWhile (\<lambda>x. x \<noteq> c) (rev s))) - 1"

definition rstrip :: "string \<Rightarrow> char \<Rightarrow> string" where
  "rstrip s c = rev (dropWhile (\<lambda>x. x = c) (rev s))"

text \<open>\<open>s.split(c)\<close>: the pieces between the occurrences of \<open>c\<close>; never empty.\<close>

fun split_on :: "char \<Rightarrow> string \<Rightarrow> string list" where
  "split_on c [] = [[]]"
| "split_on c (x # xs) =
     (if x = c then [] # split_on c xs
      else (case split_on c xs of [] \<Rightarrow> [[x]] | w # ws \<Rightarrow> (x # w) # ws))"

fun sep_join :: "string \<Rightarrow> string list \<Rightarrow> string" where
  "sep_join s [] = []"
| "sep_join s [w] = w"
| "sep_join s (w # v # ws) = w @ s @ sep_join s (v # ws)"

definition isabs :: "string \<Rightarrow> bool" where
  "isabs p = startswith p ''/''"

definition dirname :: "string \<Rightarrow> string" where
  "dirname p =
     (let i = nat (rfind p CHR ''/'' + 1);
          head = take i p
      in if head \<noteq> [] \<and> head \<noteq> replicate (length head) CHR ''/''
         then rstrip head CHR ''/'' else head)"


definition join :: "string \<Rightarrow> string \<Rightarrow> string" where
  "join a b =
     (if startswith b ''/'' then b
      else if a = [] \<or> endswith a ''/'' then a @ b
      else a @ ''/'' @ b)"

text \<open>
  One round of the loop of \<open>normpath\<close> over the components: \<open>new_comps\<close> is the list
  built so far, \<open>append\<close> adds at its end and \<open>pop\<close> removes its last element.
\<close>

definition norm_step :: "nat \<Rightarrow> string list \<Rightarrow> string \<Rightarrow> string list" where
  "norm_step initial_slashes new_comps comp' =
     (if comp' = [] \<or> comp' = ''.'' then new_comps
      else if comp' \<noteq> ''..'' \<or> (initial_slashes = 0 \<and> new_comps = []) \<or>
              (new_comps \<noteq> [] \<and> last new_comps = ''..'')
           then new_comps @ [comp']
      else if new_comps \<noteq> [] then butlast new_comps
      else new_comps)"

definition count_initial_slashes :: "string \<Rightarrow> nat" where
  "count_initial_slashes path =
     (if startswith path ''/''
      then (if startswith path ''//'' \<and> \<not> startswith path ''///'' then 2 else 1)
      else 0)"

definition normpath :: "string \<Rightarrow> string" where
  "normpath path =
     (if path = [] then ''.''
      else
        let initial_slashes = count_initial_slashes path;
            comps = foldl (norm_step initial_slashes) [] (split_on CHR ''/'' path);
            path' = replicate initial_slashes CHR ''/'' @ sep_join ''/'' comps
        in if path' = [] then ''.'' else path')"

definition abspath :: "string \<Rightarrow> string \<Rightarrow> string" where
  "abspath cwd path = normpath (if isabs path then path else join cwd path)"

subsection \<open>The descriptor\<close>

text \<open>The values the script builds: strings, lists, and dictionaries with string keys.\<close>

datatype pyval = Str string | PyList "pyval list" | PyDict "(string \<times> pyval) list"

datatype error = OSError

text \<open>
  The file system as the operating system has it: what is at a physical absolute path
  (the path from the root through directories only, written \<open>/a/b\<close>). A directory
  comes with its listing as \<open>os.walk\<close> sees it when it follows links, which is how
  the package finder walks; a symbolic link comes with its target; at every other path
  there is nothing a path can go through (no entry, or a regular file).
\<close>

datatype node = Directory "entry list" | Symlink string

type_synonym filesystem = "string \<Rightarrow> node option"

text \<open>A physical path as a string, and the components of a path string.\<close>

definition render :: "string list \<Rightarrow> string" where
  "render comps = ''/'' @ sep_join ''/'' comps"

definition components :: "string \<Rightarrow> string list" where
  "components path = filter (\<lambda>c. c \<noteq> []) (split_on CHR ''/'' path)"

text \<open>
  Modelled from the spec: path resolution is the operating system's and not part of the
  source. The walk goes from the directory \<open>cur\<close> through the components in turn: an
  empty component and \<open>.\<close> stay, \<open>..\<close> goes to the parent directory (the root is its
  own parent), a name goes to the entry of that name, which has to be a directory or a
  symbolic link; a link is replaced by its target, walked from the directory of the
  link, or from the root when the target is absolute. No more than \<open>MAXSYMLINKS\<close>
  links are followed. The walk has to end in a directory.
\<close>

definition MAXSYMLINKS :: nat where
  "MAXSYMLINKS = 40"

fun walk_path :: "nat \<Rightarrow> filesystem \<Rightarrow> string list \<Rightarrow> string list \<Rightarrow> string list option" where
  "walk_path links fs cur [] =
     (case fs (render cur) of Some (Directory es) \<Rightarrow> Some cur | _ \<Rightarrow> None)"
| "walk_path links fs cur (c # cs) =
     (if c = [] \<or> c = ''.'' then walk_path links fs cur cs
      else if c = ''..'' then walk_path links fs (butlast cur) cs
      else (case fs (render (cur @ [c])) of
              None \<Rightarrow> None
            | Some (Directory es) \<Rightarrow> walk_path links fs (cur @ [c]) cs
            | Some (Symlink target) \<Rightarrow>
                (if links = 0 \<or> target = [] then None
                 else walk_path (links - 1) fs (if isabs target then [] else cur)
                        (split_on CHR ''/'' target @ cs))))"

text \<open>
  The directory a path names for a process whose working directory is \<open>cwd\<close>; the
  empty path names nothing.
\<close>

definition resolve :: "filesystem \<Rightarrow> string \<Rightarrow> string \<Rightarrow> string list option" where
  "resolve fs cwd path =
     (if path = [] then None
      else walk_path MAXSYMLINKS fs (if isabs path then [] else components cwd)
             (split_on CHR ''/'' path))"

text \<open>
  The state of the process while the script runs: the working directory (its physical
  path, as \<open>os.getcwd()\<close> reports it), the module's variables in the order of their
  binding, and the keyword arguments of each call of \<open>setup\<close> (the descriptor handed
  to the packaging tool).
\<close>

record state =
  cwd :: string
  globals :: "(string \<times> pyval) list"
  setup_calls :: "(string \<times> pyval) list list"

text \<open>
  Line 20: \<open>os.chdir(os.path.abspath(os.path.dirname(__file__)))\<close>. \<open>os.chdir\<close> raises
  when the path names no directory; after it the working directory is the directory
  reached, which \<open>os.getcwd()\<close> reports by its physical path.
\<close>

definition chdir :: "filesystem \<Rightarrow> string \<Rightarrow> state \<Rightarrow> error + state" where
  "chdir fs path st =
     (case resolve fs (cwd st) path of
        None \<Rightarrow> Inl OSError
      | Some d \<Rightarrow> Inr (st\<lparr>cwd := render d\<rparr>))"

definition stmt_chdir :: "filesystem \<Rightarrow> string \<Rightarrow> state \<Rightarrow> error + state" where
  "stmt_chdir fs file st = chdir fs (abspath (cwd st) (dirname file)) st"

text \<open>Line 22: \<open>requires = []\<close>.\<close>

definition stmt_requires :: "state \<Rightarrow> error + state" where
  "stmt_requires st = Inr (st\<lparr>globals := globals st @ [(''requires'', PyList [])]\<rparr>)"

text \<open>
  Lines 24 to 41: the call of \<open>setup\<close>. \<open>find_packages\<close> walks \<open>'.'\<close>, the working
  directory; \<open>os.walk\<close> ignores a directory it cannot list, so a missing directory gives
  no package.
\<close>

definition install_requires :: "string list" where
  "install_requires =
     [''protobuf==3.19'',
      ''click==7.0'',
      ''google-cloud-storage==1.44.0'',
      ''numpy==1.19.5'',
      ''PyGithub==1.43.8'',
      ''pystache==0.5.4'',
      ''requests==2.23.0'',
      ''PyYAML==6.0.0'']"

definition packages :: "filesystem \<Rightarrow> state \<Rightarrow> string list" where
  "packages fs st =
     (case fs (cwd st) of Some (Directory es) \<Rightarrow> discover_packages es | _ \<Rightarrow> [])"

definition entry_points :: "(string \<times> pyval) list" where
  "entry_points = [(''console_scripts'', PyList [Str ''fireci = fireci.main:cli''])]"

definition setup_kwargs :: "filesystem \<Rightarrow> state \<Rightarrow> (string \<times> pyval) list" where
  "setup_kwargs fs st =
     [(''name'', Str ''fireci''),
      (''version'', Str ''0.1''),
      (''install_requires'', PyList (map Str install_requires)),
      (''packages'', PyList (map Str (packages fs st))),
      (''entry_points'', PyDict entry_points)]"

definition stmt_setup :: "filesystem \<Rightarrow> state \<Rightarrow> error + state" where
  "stmt_setup fs st = Inr (st\<lparr>setup_calls := setup_calls st @ [setup_kwargs fs st]\<rparr>)"

text \<open>Running statements in sequence: the first exception ends the run.\<close>

fun run_stmts :: "(state \<Rightarrow> error + state) list \<Rightarrow> state \<Rightarrow> error + state" where
  "run_stmts [] st = Inr st"
| "run_stmts (stmt # stmts) st =
     (case stmt st of Inl e \<Rightarrow> Inl e | Inr st' \<Rightarrow> run_stmts stmts st')"

definition initial_state :: "string \<Rightarrow> state" where
  "initial_state dir = \<lparr>cwd = dir, globals = [], setup_calls = []\<rparr>"

text \<open>
  Loading the descriptor: \<open>file\<close> is the value of \<open>__file__\<close>, the name under which the
  descriptor was opened, and \<open>dir\<close> the working directory of the process that loads it.
\<close>

definition load_descriptor :: "filesystem \<Rightarrow> string \<Rightarrow> string \<Rightarrow> error + state" where
  "load_descriptor fs dir file =
     run_stmts [stmt_chdir fs file, stmt_requires, stmt_setup fs] (initial_state dir)"

subsection \<open>Reading the declared strings\<close>

text \<open>
  Modelled from the spec: the packaging tool, not the source, reads a requirement string
  as a library name with version constraints and an entry-point string as a command
  name with a module and a callable (section 3: a dependency is a pair of a library name
  and a version constraint, an entry point maps a command name to a module path and a
  callable name; glossary: an exact pin requires precisely one version, no range).
  A requirement is a name followed by constraints separated by commas, each an operator
  and a version.
\<close>

definition is_name_char :: "char \<Rightarrow> bool" where
  "is_name_char c =
     (c \<in> set ''abcdefghijklmnopqrstuvwxyzABCDEFGHIJKLMNOPQRSTUVWXYZ0123456789._-'')"

definition is_version_char :: "char \<Rightarrow> bool" where
  "is_version_char c =
     (c \<in> set ''abcdefghijklmnopqrstuvwxyzABCDEFGHIJKLMNOPQRSTUVWXYZ0123456789.*+!_-'')"

definition operators :: "string list" where
  "operators = [''==='', ''=='', ''~='', ''!='', ''<='', ''>='', ''<'', ''>'']"

definition parse_specifier :: "string \<Rightarrow> (string \<times> string) option" where
  "parse_specifier sp =
     (case filter (startswith sp) operators of
        [] \<Rightarrow> None
      | op # _ \<Rightarrow>
          (let v = drop (length op) sp
           in if v \<noteq> [] \<and> list_all is_version_char v then Some (op, v) else None))"

definition parse_requirement :: "string \<Rightarrow> (string \<times> (string \<times> string) list) option" where
  "parse_requirement r =
     (let name = takeWhile is_name_char r;
          rest = dropWhile is_name_char r;
          specs = (if rest = [] then [] else map parse_specifier (split_on CHR '','' rest))
      in if name \<noteq> [] \<and> list_all (\<lambda>x. x \<noteq> None) specs
         then Some (name, map the specs) else None)"

text \<open>The name and the version of a requirement that is an exact pin.\<close>

definition exact_pin :: "string \<Rightarrow> (string \<times> string) option" where
  "exact_pin r =
     (case parse_requirement r of
        Some (name, [(op, v)]) \<Rightarrow>
          (if op = ''=='' \<and> CHR ''*'' \<notin> set v then Some (name, v) else None)
      | _ \<Rightarrow> None)"

definition requirement_name :: "string \<Rightarrow> string option" where
  "requirement_name r = map_option fst (parse_requirement r)"

text \<open>The name as package indexes compare it: case and the choice of separator do not count.\<close>

definition lower :: "char \<Rightarrow> char" where
  "lower c =
     (case map_of (zip ''ABCDEFGHIJKLMNOPQRSTUVWXYZ'' ''abcdefghijklmnopqrstuvwxyz'') c of
        None \<Rightarrow> c | Some l \<Rightarrow> l)"

definition canonical_name :: "string \<Rightarrow> string" where
  "canonical_name name =
     map (\<lambda>c. if c \<in> set ''._'' then CHR ''-'' else lower c) name"

definition strip :: "string \<Rightarrow> string" where
  "strip s = rev (dropWhile (\<lambda>c. c = CHR '' '') (rev (dropWhile (\<lambda>c. c = CHR '' '') s)))"

text \<open>\<open>name = module:callable\<close> read as the command name, the module and the callable.\<close>

definition parse_entry_point :: "string \<Rightarrow> (string \<times> string \<times> string) option" where
  "parse_entry_point s =
     (let name = takeWhile (\<lambda>c. c \<noteq> CHR ''='') s;
          r = dropWhile (\<lambda>c. c \<noteq> CHR ''='') s
      in if r = [] then None
         else
           (let v = strip (tl r);
                m = takeWhile (\<lambda>c. c \<noteq> CHR '':'') v;
                a = dropWhile (\<lambda>c. c \<noteq> CHR '':'') v
            in if a = [] then None else Some (strip name, strip m, strip (tl a))))"

text \<open>The strings declared under one entry-point group.\<close>

fun strings_of :: "pyval \<Rightarrow> string list" where
  "strings_of (PyList vs) = concat (map (\<lambda>v. case v of Str s \<Rightarrow> [s] | _ \<Rightarrow> []) vs)"
| "strings_of v = []"

definition group_entries :: "(string \<times> pyval) list \<Rightarrow> string \<Rightarrow> string list" where
  "group_entries eps g = (case map_of eps g of None \<Rightarrow> [] | Some v \<Rightarrow> strings_of v)"

subsection \<open>The directory that holds the descriptor\<close>






subsection \<open>The tree of the specification's example\<close>


text \<open>Two listings of the same tree: the same entries at every level, in any order.\<close>

inductive relisted :: "entry list \<Rightarrow> entry list \<Rightarrow> bool" where
  relisted_Nil: "relisted [] []"
| relisted_File: "relisted es es' \<Longrightarrow> relisted (File n # es) (File n # es')"
| relisted_Dir:
    "relisted cs cs' \<Longrightarrow> relisted es es' \<Longrightarrow> relisted (Dir n cs # es) (Dir n cs' # es')"
| relisted_swap: "relisted es es' \<Longrightarrow> relisted (x # y # es) (y # x # es')"
| relisted_trans: "relisted es1 es2 \<Longrightarrow> relisted es2 es3 \<Longrightarrow> relisted es1 es3"

subsection \<open>Example file systems\<close>





text \<open>A file system whose descriptor directory holds no package.\<close>

definition bare_tree :: "entry list" where
  "bare_tree = [File ''setup.py'', Dir ''docs'' [File ''index.txt'']]"

definition bare_fs :: filesystem where
  "bare_fs = (\<lambda>p.
     if p = ''/'' then Some (Directory [Dir ''repo'' [Dir ''ci'' [Dir ''fireci'' bare_tree]]])
     else if p = ''/repo'' then Some (Directory [Dir ''ci'' [Dir ''fireci'' bare_tree]])
     else if p = ''/repo/ci'' then Some (Directory [Dir ''fireci'' bare_tree])
     else if p = ''/repo/ci/fireci'' then Some (Directory bare_tree)
     else if p = ''/repo/ci/fireci/docs'' then Some (Directory [File ''index.txt''])
     else None)"

subsection \<open>The lexical walk\<close>


section \<open>The run of the script\<close>

text \<open>The run of the three statements, written out.\<close>

lemma load_descriptor_result:
  "load_descriptor fs dir file =
     (case resolve fs dir (abspath dir (dirname file)) of
        None \<Rightarrow> Inl OSError
      | Some d \<Rightarrow>
          Inr \<lparr>cwd = render d,
               globals = [(''requires'', PyList [])],
               setup_calls =
                 [[(''name'', Str ''fireci''),
                   (''version'', Str ''0.1''),
                   (''install_requires'', PyList (map Str install_requires)),
                   (''packages'', PyList (map Str
                      (case fs (render d) of
                         Some (Directory es) \<Rightarrow> discover_packages es | _ \<Rightarrow> []))),
                   (''entry_points'', PyDict entry_points)]]\<rparr>)"
  by (simp add: load_descriptor_def initial_state_def stmt_chdir_def chdir_def stmt_requires_def
      stmt_setup_def setup_kwargs_def packages_def split: option.splits)

section \<open>The declared metadata\<close>

text \<open>
  C3: the runtime dependencies handed to \<open>setup\<close> are exactly the eight strings of the
  source, in the source's order, each read as an exact pin of the named library at the
  named version: protobuf 3.19, click 7.0, google-cloud-storage 1.44.0, numpy 1.19.5,
  PyGithub 1.43.8, pystache 0.5.4, requests 2.23.0 and PyYAML 6.0.0, and nothing else.
  A run of the script either stops at \<open>os.chdir\<close> or calls \<open>setup\<close> once, with this
  list.
\<close>

theorem install_requires_content:
  "map_of (setup_kwargs fs st) ''install_requires'' =
     Some (PyList
       [Str ''protobuf==3.19'', Str ''click==7.0'', Str ''google-cloud-storage==1.44.0'',
        Str ''numpy==1.19.5'', Str ''PyGithub==1.43.8'', Str ''pystache==0.5.4'',
        Str ''requests==2.23.0'', Str ''PyYAML==6.0.0''])
   \<and> length install_requires = 8
   \<and> map parse_requirement install_requires =
       [Some (''protobuf'', [(''=='', ''3.19'')]),
        Some (''click'', [(''=='', ''7.0'')]),
        Some (''google-cloud-storage'', [(''=='', ''1.44.0'')]),
        Some (''numpy'', [(''=='', ''1.19.5'')]),
        Some (''PyGithub'', [(''=='', ''1.43.8'')]),
        Some (''pystache'', [(''=='', ''0.5.4'')]),
        Some (''requests'', [(''=='', ''2.23.0'')]),
        Some (''PyYAML'', [(''=='', ''6.0.0'')])]
   \<and> map_sum id (\<lambda>st. map (\<lambda>kw. map_of kw ''install_requires'') (setup_calls st))
         (load_descriptor fs' dir file) \<in>
       {Inl OSError,
        Inr [Some (PyList
          [Str ''protobuf==3.19'', Str ''click==7.0'', Str ''google-cloud-storage==1.44.0'',
           Str ''numpy==1.19.5'', Str ''PyGithub==1.43.8'', Str ''pystache==0.5.4'',
           Str ''requests==2.23.0'', Str ''PyYAML==6.0.0''])]}"
proof (intro conjI)
  show "map_sum id (\<lambda>st. map (\<lambda>kw. map_of kw ''install_requires'') (setup_calls st))
         (load_descriptor fs' dir file) \<in>
       {Inl OSError,
        Inr [Some (PyList
          [Str ''protobuf==3.19'', Str ''click==7.0'', Str ''google-cloud-storage==1.44.0'',
           Str ''numpy==1.19.5'', Str ''PyGithub==1.43.8'', Str ''pystache==0.5.4'',
           Str ''requests==2.23.0'', Str ''PyYAML==6.0.0''])]}"
    by (cases "resolve fs' dir (abspath dir (dirname file))")
       (simp_all add: load_descriptor_result install_requires_def)
  show "map_of (setup_kwargs fs st) ''install_requires'' =
     Some (PyList
       [Str ''protobuf==3.19'', Str ''click==7.0'', Str ''google-cloud-storage==1.44.0'',
        Str ''numpy==1.19.5'', Str ''PyGithub==1.43.8'', Str ''pystache==0.5.4'',
        Str ''requests==2.23.0'', Str ''PyYAML==6.0.0''])"
    by (simp add: setup_kwargs_def install_requires_def)
  show "length install_requires = 8"
    by (simp add: install_requires_def)
  show "map parse_requirement install_requires =
       [Some (''protobuf'', [(''=='', ''3.19'')]),
        Some (''click'', [(''=='', ''7.0'')]),
        Some (''google-cloud-storage'', [(''=='', ''1.44.0'')]),
        Some (''numpy'', [(''=='', ''1.19.5'')]),
        Some (''PyGithub'', [(''=='', ''1.43.8'')]),
        Some (''pystache'', [(''=='', ''0.5.4'')]),
        Some (''requests'', [(''=='', ''2.23.0'')]),
        Some (''PyYAML'', [(''=='', ''6.0.0'')])]"
    by code_simp
qed

text \<open>
  C4: the descriptor declares one entry-point group, \<open>console_scripts\<close>, with one entry:
  the command \<open>fireci\<close>, whose target is the callable \<open>cli\<close> of the module
  \<open>fireci.main\<close>. No other command and no other group is declared. A run of the
  script either stops at \<open>os.chdir\<close> or calls \<open>setup\<close> once, with this declaration.
\<close>

theorem entry_points_fireci:
  "map_of (setup_kwargs fs st) ''entry_points'' = Some (PyDict entry_points)
   \<and> map fst entry_points = [''console_scripts'']
   \<and> map parse_entry_point (group_entries entry_points ''console_scripts'') =
       [Some (''fireci'', ''fireci.main'', ''cli'')]
   \<and> map_sum id (\<lambda>st. map (\<lambda>kw. map_of kw ''entry_points'') (setup_calls st))
         (load_descriptor fs' dir file) \<in>
       {Inl OSError,
        Inr [Some (PyDict [(''console_scripts'', PyList [Str ''fireci = fireci.main:cli''])])]}"
proof (intro conjI)
  show "map_sum id (\<lambda>st. map (\<lambda>kw. map_of kw ''entry_points'') (setup_calls st))
         (load_descriptor fs' dir file) \<in>
       {Inl OSError,
        Inr [Some (PyDict [(''console_scripts'', PyList [Str ''fireci = fireci.main:cli''])])]}"
    by (cases "resolve fs' dir (abspath dir (dirname file))")
       (simp_all add: load_descriptor_result entry_points_def)
  show "map_of (setup_kwargs fs st) ''entry_points'' = Some (PyDict entry_points)"
    by (simp add: setup_kwargs_def)
  show "map fst entry_points = [''console_scripts'']"
    by (simp add: entry_points_def)
  show "map parse_entry_point (group_entries entry_points ''console_scripts'') =
       [Some (''fireci'', ''fireci.main'', ''cli'')]"
    by code_simp
qed

text \<open>
  C5: every declared requirement is an exact pin (one constraint, the operator \<open>==\<close>, one
  version without a wildcard), and the list handed to \<open>setup\<close> is the declared list
  itself, in its order, with nothing resolved or rewritten, also in a run of the
  script, which either stops at \<open>os.chdir\<close> or calls \<open>setup\<close> once.
\<close>

theorem install_requires_exact_pins:
  "list_all (\<lambda>r. exact_pin r \<noteq> None) install_requires
   \<and> map exact_pin install_requires =
       [Some (''protobuf'', ''3.19''), Some (''click'', ''7.0''),
        Some (''google-cloud-storage'', ''1.44.0''), Some (''numpy'', ''1.19.5''),
        Some (''PyGithub'', ''1.43.8''), Some (''pystache'', ''0.5.4''),
        Some (''requests'', ''2.23.0''), Some (''PyYAML'', ''6.0.0'')]
   \<and> map_of (setup_kwargs fs st) ''install_requires'' =
       Some (PyList (map Str install_requires))
   \<and> map_sum id (\<lambda>st. map (\<lambda>kw. map_of kw ''install_requires'') (setup_calls st))
         (load_descriptor fs' dir file) \<in>
       {Inl OSError, Inr [Some (PyList (map Str install_requires))]}"
proof (intro conjI)
  show "map_sum id (\<lambda>st. map (\<lambda>kw. map_of kw ''install_requires'') (setup_calls st))
         (load_descriptor fs' dir file) \<in>
       {Inl OSError, Inr [Some (PyList (map Str install_requires))]}"
    by (cases "resolve fs' dir (abspath dir (dirname file))")
       (simp_all add: load_descriptor_result)
  show "list_all (\<lambda>r. exact_pin r \<noteq> None) install_requires"
    by code_simp
  show "map exact_pin install_requires =
       [Some (''protobuf'', ''3.19''), Some (''click'', ''7.0''),
        Some (''google-cloud-storage'', ''1.44.0''), Some (''numpy'', ''1.19.5''),
        Some (''PyGithub'', ''1.43.8''), Some (''pystache'', ''0.5.4''),
        Some (''requests'', ''2.23.0''), Some (''PyYAML'', ''6.0.0'')]"
    by code_simp
  show "map_of (setup_kwargs fs st) ''install_requires'' =
       Some (PyList (map Str install_requires))"
    by (simp add: setup_kwargs_def)
qed

text \<open>
  C6: no library is named twice in the declared dependency list: the eight names are
  pairwise different, as written and also as a package index compares them (without
  case, with the separators identified).
\<close>

theorem install_requires_distinct_names:
  "list_all (\<lambda>r. requirement_name r \<noteq> None) install_requires
   \<and> distinct (map requirement_name install_requires)
   \<and> distinct (map (map_option canonical_name \<circ> requirement_name) install_requires)"
proof (intro conjI)
  show "list_all (\<lambda>r. requirement_name r \<noteq> None) install_requires"
    by code_simp
  show "distinct (map requirement_name install_requires)"
    by code_simp
  show "distinct (map (map_option canonical_name \<circ> requirement_name) install_requires)"
    by code_simp
qed

section \<open>Package discovery\<close>

declare find_iter.simps [simp del]

lemmas discovery_defs =
  discover_packages_def find_packages_def ALWAYS_EXCLUDE_def level_packages_def kept_dirs_def
  is_candidate_def is_pruned_def looks_like_package_def package_name_def matches_any_def
  find_iter.simps

text \<open>Every package the walk returns passed the inclusion and not the exclusion filter.\<close>

lemma find_iter_filters:
  "p \<in> set (find_iter ex inc root es) \<Longrightarrow> matches_any inc p \<and> \<not> matches_any ex p"
  "p \<in> set (walk_kept ex inc root ds) \<Longrightarrow> matches_any inc p \<and> \<not> matches_any ex p"
  by (induction ex inc root es and ex inc root ds rule: find_iter_walk_kept.induct)
     (auto simp: level_packages_def find_iter.simps)

lemma matches_any_append: "matches_any (xs @ ys) p = (matches_any xs p \<or> matches_any ys p)"
  by (simp add: matches_any_def)

lemma filter_conj_Nil: "filter P xs = [] \<Longrightarrow> filter (\<lambda>x. P x \<and> Q x) xs = []"
  by (induction xs) (auto split: if_splits)

lemma find_iter_no_candidates:
  "filter is_candidate (subdirs es) = [] \<Longrightarrow> find_iter ex inc root es = []"
  by (simp add: find_iter.simps level_packages_def kept_dirs_def filter_conj_Nil)

lemma discover_no_candidates:
  "filter is_candidate (subdirs es) = [] \<Longrightarrow> discover_packages es = []"
  by (simp add: discover_packages_def find_packages_def find_iter_no_candidates)




text \<open>
  C2, as the claim states it, fails: a tree with a directory \<open>tests\<close> for which the
  discovery returns \<open>a.tests\<close> and \<open>tests.unit\<close>, dotted names with the component
  \<open>tests\<close>, which matches the exclusion pattern.
\<close>

theorem tests_component_returned:
  "Dir ''tests'' [File ''__init__.py'', Dir ''unit'' [File ''__init__.py'']] \<in>
     set [Dir ''a'' [File ''__init__.py'', Dir ''tests'' [File ''__init__.py'']],
          Dir ''tests'' [File ''__init__.py'', Dir ''unit'' [File ''__init__.py'']]]
   \<and> discover_packages
         [Dir ''a'' [File ''__init__.py'', Dir ''tests'' [File ''__init__.py'']],
          Dir ''tests'' [File ''__init__.py'', Dir ''unit'' [File ''__init__.py'']]] =
       [''a'', ''a.tests'', ''tests.unit'']
   \<and> ''tests'' \<in> set (split_on CHR ''.'' ''a.tests'')
   \<and> ''tests'' \<in> set (split_on CHR ''.'' ''tests.unit'')
   \<and> fnmatchcase ''tests'' ''tests''"
  by (simp add: discovery_defs)

text \<open>What the exclusion list of the descriptor changes: it removes the name \<open>tests\<close>.\<close>

lemma fnmatchcase_literal:
  "CHR ''*'' \<notin> set pat \<Longrightarrow> CHR ''?'' \<notin> set pat \<Longrightarrow> fnmatchcase n pat = (n = pat)"
  by (induction n pat rule: fnmatchcase.induct) auto

lemma is_pruned_tests:
  "is_pruned (ALWAYS_EXCLUDE @ [''tests'']) p = is_pruned ALWAYS_EXCLUDE p"
proof -
  have "p @ ''*'' \<noteq> ''tests''" "p @ ''.*'' \<noteq> ''tests''"
    by (auto dest: arg_cong[where f = last])
  then show ?thesis
    by (simp add: is_pruned_def)
qed

lemma kept_dirs_tests:
  "kept_dirs (ALWAYS_EXCLUDE @ [''tests'']) root es = kept_dirs ALWAYS_EXCLUDE root es"
  by (simp add: kept_dirs_def is_pruned_tests)

lemma level_packages_tests:
  "level_packages (ALWAYS_EXCLUDE @ [''tests'']) inc root es =
     filter (\<lambda>p. p \<noteq> ''tests'') (level_packages ALWAYS_EXCLUDE inc root es)"
proof -
  have "(matches_any inc p \<and> \<not> matches_any (ALWAYS_EXCLUDE @ [''tests'']) p) =
        ((matches_any inc p \<and> \<not> matches_any ALWAYS_EXCLUDE p) \<and> p \<noteq> ''tests'')" for p
    by (auto simp: matches_any_append matches_any_def fnmatchcase_literal)
  then show ?thesis
    by (simp add: level_packages_def)
qed

lemma find_iter_tests:
  "ex = ALWAYS_EXCLUDE @ [''tests''] \<Longrightarrow>
     find_iter ex inc root es = filter (\<lambda>p. p \<noteq> ''tests'') (find_iter ALWAYS_EXCLUDE inc root es)"
  "ex = ALWAYS_EXCLUDE @ [''tests''] \<Longrightarrow>
     walk_kept ex inc root ds = filter (\<lambda>p. p \<noteq> ''tests'') (walk_kept ALWAYS_EXCLUDE inc root ds)"
proof (induction ex inc root es and ex inc root ds rule: find_iter_walk_kept.induct)
  case (1 ex inc root es)
  then show ?case
    by (simp add: find_iter.simps[of _ inc root es] level_packages_tests kept_dirs_tests)
next
  case (2 ex inc root)
  show ?case by simp
next
  case (3 ex inc root d ds)
  then show ?case by simp
qed

text \<open>
  C2, amended: for every source tree, the packages returned by the discovery are
  exactly those that the discovery without an exclusion list returns, less the entry
  equal to \<open>tests\<close>, in the same order. So no returned entry is equal to \<open>tests\<close>,
  none has a whole dotted name that matches the exclusion pattern, and a package with
  \<open>tests\<close> as one component among several (\<open>tests.unit\<close>, \<open>a.tests\<close>) is returned
  exactly when the discovery without exclusion returns it.
\<close>

theorem tests_not_returned:
  "''tests'' \<notin> set (discover_packages es)
   \<and> list_all (\<lambda>p. \<not> fnmatchcase p ''tests'') (discover_packages es)
   \<and> discover_packages es = filter (\<lambda>p. p \<noteq> ''tests'') (find_packages es [] [''*''])"
proof -
  have eq: "discover_packages es = filter (\<lambda>p. p \<noteq> ''tests'') (find_packages es [] [''*''])"
    by (simp add: discover_packages_def find_packages_def find_iter_tests(1))
  have 1: "''tests'' \<notin> set (discover_packages es)"
    unfolding eq by simp
  have 2: "list_all (\<lambda>p. \<not> fnmatchcase p ''tests'') (discover_packages es)"
    unfolding eq list_all_iff by (simp add: fnmatchcase_literal)
  from 1 2 eq show ?thesis by blast
qed

subsection \<open>The order of the listings does not count\<close>

lemma subdirs_Cons: "subdirs (e # es) = subdirs [e] @ subdirs es"
  by (cases e) auto

lemma level_packages_Cons:
  "level_packages ex inc root (e # es) =
     level_packages ex inc root [e] @ level_packages ex inc root es"
  unfolding level_packages_def by (subst subdirs_Cons) simp

lemma kept_dirs_Cons:
  "kept_dirs ex root (e # es) = kept_dirs ex root [e] @ kept_dirs ex root es"
  unfolding kept_dirs_def by (subst subdirs_Cons) simp

lemma walk_kept_append:
  "walk_kept ex inc root (xs @ ys) = walk_kept ex inc root xs @ walk_kept ex inc root ys"
  by (induction xs) auto

lemma set_find_iter_Cons:
  "set (find_iter ex inc root (e # es)) =
     set (find_iter ex inc root [e]) \<union> set (find_iter ex inc root es)"
proof -
  have "find_iter ex inc root (e # es) =
     level_packages ex inc root [e] @ level_packages ex inc root es @
     walk_kept ex inc root (kept_dirs ex root [e]) @ walk_kept ex inc root (kept_dirs ex root es)"
    by (subst find_iter.simps, subst level_packages_Cons, subst kept_dirs_Cons)
       (simp add: walk_kept_append)
  then show ?thesis
    by (auto simp: find_iter.simps[of ex inc root "[e]"] find_iter.simps[of ex inc root es])
qed

lemma find_iter_File: "find_iter ex inc root [File n] = []"
  by (simp add: find_iter.simps level_packages_def kept_dirs_def)

lemma find_iter_Dir:
  "find_iter ex inc root [Dir n cs] =
     (if is_candidate (n, cs)
      then filter (\<lambda>p. matches_any inc p \<and> \<not> matches_any ex p) [package_name root n] @
           (if is_pruned ex (package_name root n) then []
            else find_iter ex inc (package_name root n) cs)
      else [])"
  by (simp add: find_iter.simps[of ex inc root] level_packages_def kept_dirs_def)

lemma relisted_files: "relisted es es' \<Longrightarrow> (File m \<in> set es) = (File m \<in> set es')"
  by (induction rule: relisted.induct) auto

lemma relisted_find_iter:
  "relisted es es' \<Longrightarrow> set (find_iter ex inc root es) = set (find_iter ex inc root es')"
proof (induction arbitrary: root rule: relisted.induct)
  case relisted_Nil
  show ?case by simp
next
  case (relisted_File es es' n)
  show ?case
    unfolding set_find_iter_Cons[of ex inc root "File n" es]
      set_find_iter_Cons[of ex inc root "File n" es']
    using relisted_File.IH by simp
next
  case (relisted_Dir cs cs' es es' n)
  have "is_candidate (n, cs) = is_candidate (n, cs')"
    using relisted_files[OF relisted_Dir.hyps(1)]
    by (simp add: is_candidate_def looks_like_package_def)
  then have "set (find_iter ex inc root [Dir n cs]) = set (find_iter ex inc root [Dir n cs'])"
    using relisted_Dir.IH(1) by (simp add: find_iter_Dir)
  then show ?case
    unfolding set_find_iter_Cons[of ex inc root "Dir n cs" es]
      set_find_iter_Cons[of ex inc root "Dir n cs'" es']
    using relisted_Dir.IH(2) by simp
next
  case (relisted_swap es es' x y)
  have "set (find_iter ex inc root (x # y # es)) =
        set (find_iter ex inc root [x]) \<union>
          (set (find_iter ex inc root [y]) \<union> set (find_iter ex inc root es))"
    unfolding set_find_iter_Cons[of ex inc root x "y # es"]
      set_find_iter_Cons[of ex inc root y es]
    by simp
  moreover have "set (find_iter ex inc root (y # x # es')) =
        set (find_iter ex inc root [y]) \<union>
          (set (find_iter ex inc root [x]) \<union> set (find_iter ex inc root es'))"
    unfolding set_find_iter_Cons[of ex inc root y "x # es'"]
      set_find_iter_Cons[of ex inc root x es']
    by simp
  ultimately show ?case
    using relisted_swap.IH by auto
next
  case (relisted_trans es1 es2 es3)
  then show ?case by simp
qed

text \<open>
  C7: the discovery is deterministic. Its result is a function of the tree, and the one
  thing that can differ between two runs over an unchanged tree, the order in which
  the directories are listed, does not change the set of packages returned.
\<close>

theorem discovery_deterministic:
  "relisted es es' \<Longrightarrow> set (discover_packages es) = set (discover_packages es')"
  by (simp add: discover_packages_def find_packages_def relisted_find_iter)

theorem discovery_deterministic_witness:
  "relisted
     [Dir ''tests'' [File ''__init__.py''], Dir ''a'' [Dir ''b'' [File ''__init__.py''], File ''__init__.py'']]
     [Dir ''a'' [File ''__init__.py'', Dir ''b'' [File ''__init__.py'']], Dir ''tests'' [File ''__init__.py'']]
   \<and> set (discover_packages
       [Dir ''tests'' [File ''__init__.py''], Dir ''a'' [Dir ''b'' [File ''__init__.py''], File ''__init__.py'']]) =
     set (discover_packages
       [Dir ''a'' [File ''__init__.py'', Dir ''b'' [File ''__init__.py'']], Dir ''tests'' [File ''__init__.py'']])
   \<and> discover_packages
       [Dir ''tests'' [File ''__init__.py''], Dir ''a'' [Dir ''b'' [File ''__init__.py''], File ''__init__.py'']] =
     [''a'', ''a.b'']"
proof -
  let ?t = "Dir ''tests'' [File ''__init__.py'']"
  let ?b = "Dir ''b'' [File ''__init__.py'']"
  have t: "relisted [File ''__init__.py''] [File ''__init__.py'']"
    by (intro relisted_File relisted_Nil)
  have inner: "relisted [?b, File ''__init__.py''] [File ''__init__.py'', ?b]"
    by (rule relisted_swap) (rule relisted_Nil)
  have 1: "relisted [?t, Dir ''a'' [?b, File ''__init__.py'']] [Dir ''a'' [?b, File ''__init__.py''], ?t]"
    by (rule relisted_swap) (rule relisted_Nil)
  have 2: "relisted [Dir ''a'' [?b, File ''__init__.py''], ?t] [Dir ''a'' [File ''__init__.py'', ?b], ?t]"
    by (intro relisted_Dir inner t relisted_Nil)
  have h: "relisted [?t, Dir ''a'' [?b, File ''__init__.py'']] [Dir ''a'' [File ''__init__.py'', ?b], ?t]"
    by (rule relisted_trans[OF 1 2])
  have v: "discover_packages [?t, Dir ''a'' [?b, File ''__init__.py'']] = [''a'', ''a.b'']"
    by (simp add: discovery_defs)
  show ?thesis
    using h discovery_deterministic[OF h] v by simp
qed

section \<open>Loading the descriptor\<close>

lemma bare_fs_target:
  "resolve bare_fs ''/repo'' (abspath ''/repo'' (dirname ''ci/fireci/setup.py'')) =
     Some [''repo'', ''ci'', ''fireci'']"
  "bare_fs (render [''repo'', ''ci'', ''fireci'']) = Some (Directory bare_tree)"
  "filter is_candidate (subdirs bare_tree) = []"
  by code_simp+

text \<open>
  C8: when no directory of the descriptor's directory is an importable package, the
  discovery returns the empty list, and loading the descriptor raises nothing: it ends
  with the call of \<open>setup\<close>, whose \<open>packages\<close> argument is the empty list.
\<close>

theorem no_packages_is_empty:
  assumes "resolve fs dir (abspath dir (dirname file)) = Some d"
    and "fs (render d) = Some (Directory es)"
    and "filter is_candidate (subdirs es) = []"
  shows "discover_packages es = [] \<and>
         map_sum id (\<lambda>st. map (\<lambda>kw. map_of kw ''packages'') (setup_calls st))
           (load_descriptor fs dir file) = Inr [Some (PyList [])]"
  using assms by (simp add: load_descriptor_result discover_no_candidates)

theorem no_packages_is_empty_witness:
  "discover_packages bare_tree = [] \<and>
   map_sum id (\<lambda>st. map (\<lambda>kw. map_of kw ''packages'') (setup_calls st))
     (load_descriptor bare_fs ''/repo'' ''ci/fireci/setup.py'') = Inr [Some (PyList [])]"
  using no_packages_is_empty[of bare_fs "''/repo''" "''ci/fireci/setup.py''"
      "[''repo'', ''ci'', ''fireci'']" bare_tree, OF bare_fs_target]
  by simp

text \<open>
  C10: the variable \<open>requires\<close> has no effect on the descriptor. The call of \<open>setup\<close>
  has exactly the keyword arguments \<open>name\<close>, \<open>version\<close>, \<open>install_requires\<close>,
  \<open>packages\<close> and \<open>entry_points\<close>; they do not depend on the module's variables; and
  the script without the statement \<open>requires = []\<close> makes the same call; a run of the
  script either stops at \<open>os.chdir\<close> or calls \<open>setup\<close> once, with these five
  keyword arguments.
\<close>

theorem requires_unused:
  "map fst (setup_kwargs fs st) =
     [''name'', ''version'', ''install_requires'', ''packages'', ''entry_points'']
   \<and> setup_kwargs fs (st\<lparr>globals := g\<rparr>) = setup_kwargs fs st
   \<and> map_sum id setup_calls (load_descriptor fs dir file) =
       map_sum id setup_calls
         (run_stmts [stmt_chdir fs file, stmt_setup fs] (initial_state dir))
   \<and> map_sum id (\<lambda>st. map (map fst) (setup_calls st)) (load_descriptor fs dir file) \<in>
       {Inl OSError,
        Inr [[''name'', ''version'', ''install_requires'', ''packages'', ''entry_points'']]}"
proof (intro conjI)
  show "map fst (setup_kwargs fs st) =
     [''name'', ''version'', ''install_requires'', ''packages'', ''entry_points'']"
    by (simp add: setup_kwargs_def)
  show "setup_kwargs fs (st\<lparr>globals := g\<rparr>) = setup_kwargs fs st"
    by (simp add: setup_kwargs_def packages_def)
  show "map_sum id setup_calls (load_descriptor fs dir file) =
       map_sum id setup_calls
         (run_stmts [stmt_chdir fs file, stmt_setup fs] (initial_state dir))"
    by (simp add: setup_kwargs_def packages_def load_descriptor_def initial_state_def
        stmt_chdir_def chdir_def stmt_requires_def stmt_setup_def split: option.splits)
  show "map_sum id (\<lambda>st. map (map fst) (setup_calls st)) (load_descriptor fs dir file) \<in>
       {Inl OSError,
        Inr [[''name'', ''version'', ''install_requires'', ''packages'', ''entry_points'']]}"
    by (cases "resolve fs dir (abspath dir (dirname file))")
       (simp_all add: load_descriptor_result)
qed

section \<open>The working directory\<close>

subsection \<open>Splitting and joining\<close>

lemma split_on_nonempty: "split_on c s \<noteq> []"
  by (induction s) (auto split: list.splits)

lemma split_on_no_sep: "c \<notin> set b \<Longrightarrow> split_on c b = [b]"
  by (induction b) auto


















subsection \<open>Lexical and physical walks\<close>














lemma split_on_append:
  "split_on c (a @ c # b) = split_on c a @ split_on c b"
  by (induction a) (auto simp: split_on_nonempty split: list.splits)


lemma components_Nil: "components [] = []"
  by (simp add: components_def)

lemma components_slash: "components (CHR ''/'' # s) = components s"
  by (simp add: components_def)



lemma split_sep_join:
  "ws \<noteq> [] \<Longrightarrow> \<forall>w\<in>set ws. CHR ''/'' \<notin> set w \<Longrightarrow>
     split_on CHR ''/'' (sep_join ''/'' ws) = ws"
proof (induction "''/''" ws rule: sep_join.induct)
  case 1
  then show ?case by simp
next
  case (2 w)
  then show ?case by (simp add: split_on_no_sep)
next
  case (3 w v ws)
  have "split_on CHR ''/'' (w @ CHR ''/'' # sep_join ''/'' (v # ws)) =
        split_on CHR ''/'' w @ split_on CHR ''/'' (sep_join ''/'' (v # ws))"
    by (rule split_on_append)
  then show ?case
    using 3 by (simp add: split_on_no_sep)
qed

lemma components_sep_join:
  assumes "[] \<notin> set ws" and "\<forall>w\<in>set ws. CHR ''/'' \<notin> set w"
  shows "components (sep_join ''/'' ws) = ws"
proof (cases "ws = []")
  case True
  then show ?thesis by (simp add: components_Nil)
next
  case False
  have "filter (\<lambda>c. c \<noteq> []) ws = ws"
    using assms(1) by (induction ws) auto
  then show ?thesis
    using split_sep_join[OF False assms(2)] by (simp add: components_def)
qed

lemma components_render:
  assumes "[] \<notin> set ws" and "\<forall>w\<in>set ws. CHR ''/'' \<notin> set w"
  shows "components (render ws) = ws"
  using components_sep_join[OF assms] by (simp add: render_def components_slash)














lemma walk_path_directory:
  "walk_path n fs cur cs = Some d \<Longrightarrow> \<exists>es. fs (render d) = Some (Directory es)"
proof (induction n fs cur cs rule: walk_path.induct)
  case (1 links fs cur)
  then show ?case by (auto split: option.splits node.splits)
next
  case (2 links fs cur c cs)
  then show ?case by (auto split: if_splits option.splits node.splits)
qed






end
